theory Spec2Isabelle
  imports Complex_Main "HOL-Library.FuncSet"
begin

section \<open>Error backpropagation notebook: the \<open>train\<close> function\<close>













subsection \<open>Which data reach the parameters\<close>













section \<open>Graphical models notebook\<close>

subsection \<open>Arrays and floating-point values\<close>

text \<open>
  A float is a real number, or \<open>None\<close> where numpy yields \<open>nan\<close> or an infinity (division by
  zero, logarithm of a number that is not positive). Rounding is not modelled.
\<close>

type_synonym float = "real option"

definition np_div :: "real \<Rightarrow> real \<Rightarrow> float" where
  "np_div a b = (if b = 0 then None else Some (a / b))"

definition np_log :: "float \<Rightarrow> float" where
  "np_log a = (case a of None \<Rightarrow> None | Some r \<Rightarrow> if 0 < r then Some (ln r) else None)"

text \<open>\<open>1. - p\<close> and \<open>p + 1e-20\<close>.\<close>

definition one_minus :: "float \<Rightarrow> float" where
  "one_minus p = map_option (\<lambda>r. 1 - r) p"

definition plus_eps :: "float \<Rightarrow> float" where
  "plus_eps p = map_option (\<lambda>r. r + 1 / 10 ^ 20) p"

datatype 'a ndarray = Scalar 'a | Array "'a ndarray list"

definition vector :: "'a list \<Rightarrow> 'a ndarray" where
  "vector xs = Array (map Scalar xs)"

definition matrix :: "'a list list \<Rightarrow> 'a ndarray" where
  "matrix xss = Array (map vector xss)"

text \<open>\<open>a.shape == ns\<close>, for an array all of whose sub-arrays have the same shape.\<close>

fun has_shape :: "'a ndarray \<Rightarrow> nat list \<Rightarrow> bool" where
  "has_shape (Scalar _) ns = (ns = [])"
| "has_shape (Array xs) [] = False"
| "has_shape (Array xs) (n # ns) = (length xs = n \<and> (\<forall>x \<in> set xs. has_shape x ns))"

subsection \<open>The data set\<close>

text \<open>
  \<open>utils.getData()\<close> returns \<open>X\<close>, one 20x20 image per example, the class labels \<open>T\<close> and
  the subclass labels \<open>Z\<close>, one per example and group. The cells that build the models
  are written for such data; on arrays of other shapes numpy raises or broadcasts, which
  the definitions below do not follow.
\<close>

type_synonym image = "int list list"

definition well_formed_image :: "image \<Rightarrow> bool" where
  "well_formed_image x \<longleftrightarrow> length x = 20 \<and> (\<forall>row \<in> set x. length row = 20)"

definition well_formed_data :: "image list \<Rightarrow> nat list \<Rightarrow> nat list list \<Rightarrow> bool" where
  "well_formed_data X T Z \<longleftrightarrow>
     length T = length X \<and> length Z = length X \<and>
     (\<forall>x \<in> set X. well_formed_image x) \<and> (\<forall>z \<in> set Z. length z = 16)"

definition nbclasses :: nat where [simp]: "nbclasses = 10"
definition nblevels_example :: nat where [simp]: "nblevels_example = 201"
definition nblevels :: nat where [simp]: "nblevels = 2"
definition nbfeats :: nat where [simp]: "nbfeats = 400"
definition nbsubclss :: nat where [simp]: "nbsubclss = 12"
definition nbgroups :: nat where [simp]: "nbgroups = 16"
definition nbgfeats :: nat where [simp]: "nbgfeats = 25"

text \<open>\<open>x.sum()\<close> and \<open>x.ravel()\<close> of a two-dimensional array, \<open>A[T==cl]\<close>.\<close>

definition pixel_sum :: "image \<Rightarrow> int" where
  "pixel_sum x = sum_list (map sum_list x)"

definition ravel :: "'a list list \<Rightarrow> 'a list" where
  "ravel x = concat x"

definition select_class :: "'a list \<Rightarrow> nat list \<Rightarrow> nat \<Rightarrow> 'a list" where
  "select_class A T cl = map fst (filter (\<lambda>(a, t). t = cl) (zip A T))"

text \<open>\<open>np.split(a,[5,10,15])\<close> along the axis that the list is.\<close>

definition np_split :: "'a list \<Rightarrow> 'a list list" where
  "np_split xs = [take 5 xs, take 5 (drop 5 xs), take 5 (drop 10 xs), drop 15 xs]"

text \<open>
  \<open>np.stack(np.split(np.stack(np.split(x,[5,10,15],axis=1)),[5,10,15],axis=1)).reshape(16,25)\<close>
  for a 20x20 image: the columns are cut into four blocks, then the rows; group \<open>4*r+c\<close>
  is the 5x5 patch in block row \<open>r\<close> and block column \<open>c\<close>, row by row. The training cell
  computes the same patches for all images at once (\<open>subX\<close>).
\<close>

definition xsub :: "image \<Rightarrow> int list list" where
  "xsub x =
    (let cols = map (\<lambda>c. map (\<lambda>row. np_split row ! c) x) [0..<4];
         blocks = map (\<lambda>r. map (\<lambda>cb. np_split cb ! r) cols) [0..<4]
     in concat (map (map concat) blocks))"

subsection \<open>Probability tables\<close>

text \<open>\<open>nbexamples[cl] = (T==cl).sum()\<close> and \<open>PT = (nbexamples+1) / (nbexamples+1).sum()\<close>.\<close>

definition add_one_normalise :: "real list \<Rightarrow> float list" where
  "add_one_normalise ns = map (\<lambda>n. np_div (n + 1) (sum_list (map (\<lambda>m. m + 1) ns))) ns"

definition PT :: "nat list \<Rightarrow> float list" where
  "PT T = add_one_normalise (map (\<lambda>cl. real (count_list T cl)) [0..<nbclasses])"

text \<open>
  Example model: \<open>Xtop\<close>, \<open>Xbot\<close>, and the table \<open>PXT1\<close> (or \<open>PXT2\<close>) computed from the
  levels: \<open>nbexamples[cl,lv] = (x==lv).sum()\<close> with \<open>x = Xtop[T==cl]\<close>, normalised along
  axis 1 after adding 1.
\<close>

definition Xtop :: "image list \<Rightarrow> int list" where
  "Xtop X = map (\<lambda>x. pixel_sum (take 10 x)) X"

definition Xbot :: "image list \<Rightarrow> int list" where
  "Xbot X = map (\<lambda>x. pixel_sum (drop 10 x)) X"

definition level_PXT :: "int list \<Rightarrow> nat list \<Rightarrow> float list list" where
  "level_PXT levels T =
    map (\<lambda>cl. add_one_normalise
               (map (\<lambda>lv. real (count_list (select_class levels T cl) (int lv)))
                    [0..<nblevels_example]))
        [0..<nbclasses]"

text \<open>
  Shallow model: \<open>PXT[:,cl,1] = X[cl == T].sum(axis=0).ravel() / (cl==T).sum()\<close> and
  \<open>PXT[:,cl,0] = 1. - PXT[:,cl,1]\<close>; \<open>shallow_PXT X T nbf\<close> is \<open>PXT[nbf]\<close>.
\<close>

definition shallow_PXT :: "image list \<Rightarrow> nat list \<Rightarrow> nat \<Rightarrow> float list list" where
  "shallow_PXT X T nbf =
    map (\<lambda>cl. let p1 = np_div (\<Sum>x \<leftarrow> select_class X T cl. real_of_int (ravel x ! nbf))
                               (real (count_list T cl))
              in [one_minus p1, p1])
        [0..<nbclasses]"

text \<open>
  Hierarchical model, class-subclass table: \<open>PZT[:,cl,:]\<close> counts, per group, the examples
  of class \<open>cl\<close> with each subclass, and is divided by its sum along the subclass axis;
  \<open>hier_PZT Z T grp\<close> is \<open>PZT[grp]\<close>.
\<close>

definition hier_PZT :: "nat list list \<Rightarrow> nat list \<Rightarrow> nat \<Rightarrow> float list list" where
  "hier_PZT Z T grp =
    map (\<lambda>cl. let counts = map (\<lambda>sc. real (count_list (map (\<lambda>z. z ! grp) (select_class Z T cl)) sc))
                               [0..<nbsubclss]
              in map (\<lambda>c. np_div c (sum_list counts)) counts)
        [0..<nbclasses]"

text \<open>
  Hierarchical model, subclass-level table. \<open>ind = np.argwhere(Z == sc)\<close> lists the pairs
  (example, group) with subclass \<open>sc\<close>; \<open>ind[:,0][grp==ind[:,1]]\<close> are the examples whose
  group \<open>grp\<close> has subclass \<open>sc\<close>, in increasing order. \<open>PXT[grp,:,sc,1]\<close> is the sum of
  their patches, divided by the \<open>.sum()\<close> of that array of example indices if it is
  positive, and by 1 otherwise. \<open>hier_PXT X Z grp nbf\<close> is \<open>PXT[grp,nbf]\<close>.
\<close>

definition examples_with :: "nat list list \<Rightarrow> nat \<Rightarrow> nat \<Rightarrow> nat list" where
  "examples_with Z sc grp = filter (\<lambda>n. Z ! n ! grp = sc) [0..<length Z]"

definition hier_PXT1 :: "image list \<Rightarrow> nat list list \<Rightarrow> nat \<Rightarrow> nat \<Rightarrow> nat \<Rightarrow> float" where
  "hier_PXT1 X Z grp nbf sc =
    (let ex = examples_with Z sc grp
     in np_div (\<Sum>n \<leftarrow> ex. real_of_int (xsub (X ! n) ! grp ! nbf))
               (if 0 < sum_list ex then real (sum_list ex) else 1))"

definition hier_PXT :: "image list \<Rightarrow> nat list list \<Rightarrow> nat \<Rightarrow> nat \<Rightarrow> float list list" where
  "hier_PXT X Z grp nbf =
    map (\<lambda>sc. [one_minus (hier_PXT1 X Z grp nbf sc), hier_PXT1 X Z grp nbf sc]) [0..<nbsubclss]"

text \<open>The arrays handed to \<open>np.log\<close>, and the logarithm taken entry by entry.\<close>

definition log_table :: "float ndarray \<Rightarrow> float ndarray" where
  "log_table a = map_ndarray np_log a"

subsection \<open>Nodes and models\<close>

text \<open>
  The classes \<open>VariableNode\<close> and \<open>FactorNode\<close> are in \<open>graphical.py\<close>; the cells call their
  constructors: \<open>VariableNode(name, number of states)\<close> and \<open>FactorNode(name, table of
  logarithms, list of variable nodes)\<close>. A node object is referred to by the Python
  expression it is bound to; \<open>VXG g f\<close> stands for \<open>VX[g][f]\<close> and \<open>FXTG g f\<close> for
  \<open>FXT[g][f]\<close> of the hierarchical model.
\<close>

datatype var_id = VT | VX1 | VX2 | VX nat | VZ nat | VXG nat nat

datatype fac_id = FT | FXT1 | FXT2 | FXT nat | FZT nat | FXTG nat nat

record VariableNode =
  vname :: string
  nbstates :: nat

record FactorNode =
  fname :: string
  logtable :: "float ndarray"
  variables :: "var_id list"

record model =
  variable_nodes :: "(var_id \<times> VariableNode) list"
  factor_nodes :: "(fac_id \<times> FactorNode) list"

text \<open>The \<open>%d\<close> of the node names.\<close>

fun decimal :: "nat \<Rightarrow> string" where
  "decimal n =
    (if n < 10 then [''0123456789'' ! n]
     else decimal (n div 10) @ [''0123456789'' ! (n mod 10)])"

declare decimal.simps [simp del]

definition FT_node :: "nat list \<Rightarrow> fac_id \<times> FactorNode" where
  "FT_node T = (FT, \<lparr>fname = ''FT'', logtable = log_table (vector (PT T)), variables = [VT]\<rparr>)"

definition example_model :: "image list \<Rightarrow> nat list \<Rightarrow> model" where
  "example_model X T =
    \<lparr>variable_nodes =
       [(VT, \<lparr>vname = ''VT'', nbstates = nbclasses\<rparr>),
        (VX1, \<lparr>vname = ''VX1'', nbstates = nblevels_example\<rparr>),
        (VX2, \<lparr>vname = ''VX2'', nbstates = nblevels_example\<rparr>)],
     factor_nodes =
       [FT_node T,
        (FXT1, \<lparr>fname = ''FXT'', logtable = log_table (matrix (level_PXT (Xtop X) T)),
                variables = [VT, VX1]\<rparr>),
        (FXT2, \<lparr>fname = ''FXT'', logtable = log_table (matrix (level_PXT (Xbot X) T)),
                variables = [VT, VX2]\<rparr>)]\<rparr>"

definition shallow_model :: "image list \<Rightarrow> nat list \<Rightarrow> model" where
  "shallow_model X T =
    \<lparr>variable_nodes =
       (VT, \<lparr>vname = ''VT'', nbstates = nbclasses\<rparr>) #
       map (\<lambda>nname. (VX nname, \<lparr>vname = ''VX['' @ decimal nname @ '']'', nbstates = nblevels\<rparr>))
           [0..<nbfeats],
     factor_nodes =
       FT_node T #
       map (\<lambda>nbf. (FXT nbf,
                   \<lparr>fname = ''FXT['' @ decimal nbf @ '']'',
                    logtable = log_table (matrix (map (map plus_eps) (shallow_PXT X T nbf))),
                    variables = [VT, VX nbf]\<rparr>))
           [0..<nbfeats]\<rparr>"

definition hier_model :: "image list \<Rightarrow> nat list \<Rightarrow> nat list list \<Rightarrow> model" where
  "hier_model X T Z =
    \<lparr>variable_nodes =
       (VT, \<lparr>vname = ''VT'', nbstates = nbclasses\<rparr>) #
       map (\<lambda>nname. (VZ nname, \<lparr>vname = ''VZ['' @ decimal nname @ '']'', nbstates = nbsubclss\<rparr>))
           [0..<nbgroups] @
       concat (map (\<lambda>gname.
                 map (\<lambda>nname. (VXG gname nname,
                        \<lparr>vname = ''VX['' @ decimal gname @ ''][''  @ decimal nname @ '']'',
                         nbstates = nblevels\<rparr>))
                     [0..<nbgfeats])
               [0..<nbgroups]),
     factor_nodes =
       FT_node T #
       map (\<lambda>grp. (FZT grp,
                   \<lparr>fname = ''FXT['' @ decimal grp @ '']'',
                    logtable = log_table (matrix (map (map plus_eps) (hier_PZT Z T grp))),
                    variables = [VT, VZ grp]\<rparr>))
           [0..<nbgroups] @
       concat (map (\<lambda>grp.
                 map (\<lambda>nbf. (FXTG grp nbf,
                        \<lparr>fname = ''FXT['' @ decimal grp @ ''][''  @ decimal nbf @ '']'',
                         logtable = log_table (matrix (map (map plus_eps) (hier_PXT X Z grp nbf))),
                         variables = [VZ grp, VXG grp nbf]\<rparr>))
                     [0..<nbgfeats])
               [0..<nbgroups])\<rparr>"

text \<open>
  The number of states of a variable node of a model, and what it means that a factor's
  table fits its variables: every variable of the factor is a node of the model, and the
  shape of the table is the list of their numbers of states.
\<close>

definition states_of :: "model \<Rightarrow> var_id \<Rightarrow> nat option" where
  "states_of m v = map_option nbstates (map_of (variable_nodes m) v)"

definition table_fits :: "model \<Rightarrow> FactorNode \<Rightarrow> bool" where
  "table_fits m f \<longleftrightarrow>
     (case those (map (states_of m) (variables f)) of
        None \<Rightarrow> False
      | Some ns \<Rightarrow> has_shape (logtable f) ns)"

text \<open>
  Factor \<open>i\<close> of the model is attached to the variables \<open>vs\<close>, whose numbers of states are
  \<open>ns\<close>, and its table has shape \<open>ns\<close>.
\<close>

definition has_factor :: "model \<Rightarrow> fac_id \<Rightarrow> var_id list \<Rightarrow> nat list \<Rightarrow> bool" where
  "has_factor m i vs ns \<longleftrightarrow>
     (case map_of (factor_nodes m) i of
        None \<Rightarrow> False
      | Some f \<Rightarrow> variables f = vs \<and> those (map (states_of m) vs) = Some ns \<and>
                  has_shape (logtable f) ns)"


subsection \<open>The graph of a model\<close>

text \<open>
  The bipartite graph of a model: its nodes are the variable nodes and the factor nodes,
  and there is an edge between a factor and each variable in its variable list.
\<close>

datatype node = V var_id | F fac_id

definition nodes :: "model \<Rightarrow> node set" where
  "nodes m = V ` fst ` set (variable_nodes m) \<union> F ` fst ` set (factor_nodes m)"

definition edge :: "model \<Rightarrow> node \<Rightarrow> node \<Rightarrow> bool" where
  "edge m a b \<longleftrightarrow>
     (\<exists>(i, f) \<in> set (factor_nodes m). \<exists>v \<in> set (variables f).
        (a = F i \<and> b = V v) \<or> (a = V v \<and> b = F i))"

text \<open>
  Connected: any two nodes are joined by a path. A cycle is a closed path through at
  least three different nodes.
\<close>

definition connected_graph :: "'a set \<Rightarrow> ('a \<Rightarrow> 'a \<Rightarrow> bool) \<Rightarrow> bool" where
  "connected_graph N E \<longleftrightarrow> (\<forall>a \<in> N. \<forall>b \<in> N. (a, b) \<in> {(x, y). E x y}\<^sup>*)"

definition cycle :: "('a \<Rightarrow> 'a \<Rightarrow> bool) \<Rightarrow> 'a list \<Rightarrow> bool" where
  "cycle E p \<longleftrightarrow>
     3 \<le> length p \<and> distinct p \<and>
     (\<forall>i. Suc i < length p \<longrightarrow> E (p ! i) (p ! Suc i)) \<and> E (last p) (hd p)"

text \<open>
  A model is a tree containing \<open>VT\<close>: the endpoints of its edges are nodes of the model, no
  factor lists a variable twice (no double edge), the graph is connected and has no cycle.
\<close>

definition is_tree :: "model \<Rightarrow> bool" where
  "is_tree m \<longleftrightarrow>
     V VT \<in> nodes m \<and>
     (\<forall>a b. edge m a b \<longrightarrow> a \<in> nodes m \<and> b \<in> nodes m) \<and>
     (\<forall>(i, f) \<in> set (factor_nodes m). distinct (variables f)) \<and>
     connected_graph (nodes m) (edge m) \<and>
     (\<forall>p. \<not> cycle (edge m) p)"

text \<open>The distance of a node from \<open>VT\<close> in the three models.\<close>

fun depth :: "node \<Rightarrow> nat" where
  "depth (V VT) = 0"
| "depth (F FT) = 1"
| "depth (F FXT1) = 1"
| "depth (F FXT2) = 1"
| "depth (F (FXT _)) = 1"
| "depth (F (FZT _)) = 1"
| "depth (V VX1) = 2"
| "depth (V VX2) = 2"
| "depth (V (VX _)) = 2"
| "depth (V (VZ _)) = 2"
| "depth (F (FXTG _ _)) = 3"
| "depth (V (VXG _ _)) = 4"

text \<open>The edges of the three models, as pairs of a factor and one of its variables.\<close>

definition example_incident :: "node \<Rightarrow> node \<Rightarrow> bool" where
  "example_incident a b \<longleftrightarrow>
     a = F FT \<and> b = V VT \<or> a = F FXT1 \<and> (b = V VT \<or> b = V VX1) \<or>
     a = F FXT2 \<and> (b = V VT \<or> b = V VX2)"

definition shallow_incident :: "node \<Rightarrow> node \<Rightarrow> bool" where
  "shallow_incident a b \<longleftrightarrow>
     a = F FT \<and> b = V VT \<or>
     (\<exists>i < 400. a = F (FXT i) \<and> (b = V VT \<or> b = V (VX i)))"

definition hier_incident :: "node \<Rightarrow> node \<Rightarrow> bool" where
  "hier_incident a b \<longleftrightarrow>
     a = F FT \<and> b = V VT \<or>
     (\<exists>g < 16. a = F (FZT g) \<and> (b = V VT \<or> b = V (VZ g))) \<or>
     (\<exists>g < 16. \<exists>f < 25. a = F (FXTG g f) \<and> (b = V (VZ g) \<or> b = V (VXG g f)))"

subsection \<open>The \<open>predict\<close> functions\<close>

text \<open>
  The \<open>evidence\<close> fields of the variable nodes are the state that \<open>predict\<close> changes: a
  store from node to the value last assigned, \<open>None\<close> while the field still has the value
  the constructor gave it. Message passing is done by methods of \<open>graphical.py\<close>:
  \<open>VT.initiateMessagePassing(None)\<close> followed by \<open>VT.computeMarginal()\<close> is a parameter
  here, the array it returns as a function of the evidence fields.
\<close>

type_synonym evidence = "var_id \<Rightarrow> int option"

datatype error = IndexError | ValueError

text \<open>\<open>np.argmax\<close>: the first index of the greatest entry.\<close>

fun argmax_from :: "nat \<Rightarrow> real \<Rightarrow> nat \<Rightarrow> real list \<Rightarrow> nat" where
  "argmax_from best val i [] = best"
| "argmax_from best val i (p # ps) =
     (if val < p then argmax_from i p (Suc i) ps else argmax_from best val (Suc i) ps)"

definition argmax :: "real list \<Rightarrow> error + nat" where
  "argmax ps = (case ps of [] \<Rightarrow> Inl ValueError | p # ps' \<Rightarrow> Inr (argmax_from 0 p 1 ps'))"

text \<open>Example model: the two level nodes get the pixel sums of the two halves.\<close>

definition example_assign :: "image \<Rightarrow> evidence \<Rightarrow> evidence" where
  "example_assign x ev =
     ev(VX1 := Some (pixel_sum (take 10 x)), VX2 := Some (pixel_sum (drop 10 x)))"

definition example_predict ::
  "(evidence \<Rightarrow> real list) \<Rightarrow> image \<Rightarrow> evidence \<Rightarrow> (error + nat) \<times> evidence" where
  "example_predict marginal x ev =
     (let ev' = example_assign x ev in (argmax (marginal ev'), ev'))"

text \<open>
  Shallow model: \<open>x.ravel()[nbf]\<close> raises \<open>IndexError\<close> at the first \<open>nbf\<close> beyond the
  image; the nodes before it have been assigned by then.
\<close>

definition shallow_assign :: "image \<Rightarrow> evidence \<Rightarrow> error option \<times> evidence" where
  "shallow_assign x ev =
     (let r = ravel x
      in (if length r < nbfeats then Some IndexError else None,
          fold (\<lambda>nbf e. e(VX nbf := Some (r ! nbf))) [0..<min nbfeats (length r)] ev))"

definition shallow_predict ::
  "(evidence \<Rightarrow> real list) \<Rightarrow> image \<Rightarrow> evidence \<Rightarrow> (error + nat) \<times> evidence" where
  "shallow_predict marginal x ev =
     (case shallow_assign x ev of
        (Some e, ev') \<Rightarrow> (Inl e, ev')
      | (None, ev') \<Rightarrow> (argmax (marginal ev'), ev'))"

text \<open>
  Hierarchical model: \<open>xsub\<close> is computed first; \<open>np.stack\<close> and \<open>reshape(16,25)\<close> raise
  \<open>ValueError\<close> unless the image is 20x20, before any node is assigned.
\<close>

definition hier_assign :: "image \<Rightarrow> evidence \<Rightarrow> evidence" where
  "hier_assign x ev =
     fold (\<lambda>grp e. fold (\<lambda>nbf e'. e'(VXG grp nbf := Some (xsub x ! grp ! nbf))) [0..<nbgfeats] e)
          [0..<nbgroups] ev"

definition hier_predict ::
  "(evidence \<Rightarrow> real list) \<Rightarrow> image \<Rightarrow> evidence \<Rightarrow> (error + nat) \<times> evidence" where
  "hier_predict marginal x ev =
     (if well_formed_image x
      then (let ev' = hier_assign x ev in (argmax (marginal ev'), ev'))
      else (Inl ValueError, ev))"

text \<open>An image of black and white pixels.\<close>

definition binary_image :: "image \<Rightarrow> bool" where
  "binary_image x \<longleftrightarrow> (\<forall>row \<in> set x. \<forall>p \<in> set row. p = 0 \<or> p = 1)"

text \<open>The evidence of a node is one of the states of the node: \<open>0 \<le> k < nbstates\<close>.\<close>

definition evidence_in_range :: "model \<Rightarrow> evidence \<Rightarrow> var_id \<Rightarrow> bool" where
  "evidence_in_range m ev v \<longleftrightarrow>
     (case (ev v, states_of m v) of
        (Some k, Some n) \<Rightarrow> 0 \<le> k \<and> k < int n
      | _ \<Rightarrow> False)"

text \<open>An image of white pixels only, to run the functions on.\<close>

definition white_image :: image where
  "white_image = replicate 20 (replicate 20 1)"

text \<open>The store after a sequence of calls of \<open>predict\<close>, whatever they returned.\<close>

definition after_calls ::
  "(image \<Rightarrow> evidence \<Rightarrow> (error + nat) \<times> evidence) \<Rightarrow> image list \<Rightarrow> evidence \<Rightarrow> evidence" where
  "after_calls predict xs ev = fold (\<lambda>x e. snd (predict x e)) xs ev"

subsection \<open>The subclass-level table on small training sets\<close>

text \<open>
  The quantity that the specification names for the subclass-level table, to compare
  \<open>hier_PXT1\<close> with: the fraction of the training patches of group \<open>grp\<close> with subclass
  \<open>sc\<close> in which pixel \<open>nbf\<close> is white.
\<close>

definition white_fraction :: "image list \<Rightarrow> nat list list \<Rightarrow> nat \<Rightarrow> nat \<Rightarrow> nat \<Rightarrow> real" where
  "white_fraction X Z grp nbf sc =
    (let ex = examples_with Z sc grp
     in real (length (filter (\<lambda>n. xsub (X ! n) ! grp ! nbf = 1) ex)) / real (length ex))"

text \<open>
  Two training sets of white images: three examples of class 0, the first two with
  subclass 1 in every group and the third with subclass 0; and two examples of class 0
  with subclass 0 in every group.
\<close>

definition white3_X :: "image list" where "white3_X = replicate 3 white_image"
definition white3_T :: "nat list" where "white3_T = [0, 0, 0]"
definition white3_Z :: "nat list list" where
  "white3_Z = [replicate 16 1, replicate 16 1, replicate 16 0]"

definition white2_X :: "image list" where "white2_X = replicate 2 white_image"
definition white2_T :: "nat list" where "white2_T = [0, 0]"
definition white2_Z :: "nat list list" where "white2_Z = [replicate 16 0, replicate 16 0]"

section \<open>Properties of \<open>train\<close>\<close>





















lemma has_shape_log_vector:
  "has_shape (log_table (vector xs)) [n] \<longleftrightarrow> length xs = n"
  by (auto simp: log_table_def vector_def)

lemma has_shape_log_matrix:
  "has_shape (log_table (matrix xss)) [a, b] \<longleftrightarrow>
     length xss = a \<and> (\<forall>r \<in> set xss. length r = b)"
  by (auto simp: log_table_def matrix_def vector_def)

lemma map_of_tabulate:
  assumes "inj k" "j < n"
  shows "map_of (map (\<lambda>i. (k i, v i)) [0..<n]) (k j) = Some (v j)"
proof -
  have "distinct (map fst (map (\<lambda>i. (k i, v i)) [0..<n]))"
    using assms(1) by (simp add: o_def distinct_map inj_on_def inj_def)
  moreover have "(k j, v j) \<in> set (map (\<lambda>i. (k i, v i)) [0..<n])"
    using assms(2) by auto
  ultimately show ?thesis by (rule map_of_is_SomeI)
qed

lemma map_of_tabulate_None:
  assumes "\<And>i. x \<noteq> k i"
  shows "map_of (map (\<lambda>i. (k i, v i)) [0..<n]) x = None"
proof -
  have "x \<notin> fst ` set (map (\<lambda>i. (k i, v i)) [0..<n])"
    using assms by force
  then show ?thesis by (simp add: map_of_eq_None_iff)
qed

lemma map_of_VX:
  "j < n \<Longrightarrow> map_of (map (\<lambda>i. (VX i, v i)) [0..<n]) (VX j) = Some (v j)"
  using map_of_tabulate [of VX j n v] by (simp add: inj_def)

lemma map_of_VZ:
  "j < n \<Longrightarrow> map_of (map (\<lambda>i. (VZ i, v i)) [0..<n]) (VZ j) = Some (v j)"
  using map_of_tabulate [of VZ j n v] by (simp add: inj_def)

lemma map_of_VZ_None:
  "map_of (map (\<lambda>i. (VZ i, v i)) [0..<n]) (VXG g f) = None"
  by (rule map_of_tabulate_None) simp

lemma map_of_tabulate2:
  assumes inj: "\<And>g f g' f'. k g f = k g' f' \<Longrightarrow> g = g' \<and> f = f'"
    and "g < n" "f < m"
  shows "map_of (concat (map (\<lambda>g. map (\<lambda>f. (k g f, v g f)) [0..<m]) [0..<n])) (k g f)
         = Some (v g f)"
  using assms(2)
proof (induction n)
  case 0
  then show ?case by simp
next
  case (Suc n)
  show ?case
  proof (cases "g < n")
    case True
    then show ?thesis using Suc.IH by (simp add: map_add_def)
  next
    case False
    then have g: "g = n" using Suc.prems by simp
    have "k n f \<notin> fst ` set (concat (map (\<lambda>g. map (\<lambda>f. (k g f, v g f)) [0..<m]) [0..<n]))"
      using inj by force
    then have "map_of (concat (map (\<lambda>g. map (\<lambda>f. (k g f, v g f)) [0..<m]) [0..<n])) (k n f) = None"
      by (simp add: map_of_eq_None_iff)
    moreover have "map_of (map (\<lambda>f. (k n f, v n f)) [0..<m]) (k n f) = Some (v n f)"
      using map_of_tabulate [of "k n" f m "v n"] assms(3) inj by (auto simp: inj_def)
    ultimately show ?thesis by (simp add: g map_add_def)
  qed
qed

lemma map_of_VXG:
  "g < n \<Longrightarrow> f < m \<Longrightarrow>
   map_of (concat (map (\<lambda>g. map (\<lambda>f. (VXG g f, v g f)) [0..<m]) [0..<n])) (VXG g f)
     = Some (v g f)"
  by (rule map_of_tabulate2) simp_all

lemma map_of_FXTG:
  "g < n \<Longrightarrow> f < m \<Longrightarrow>
   map_of (concat (map (\<lambda>g. map (\<lambda>f. (FXTG g f, v g f)) [0..<m]) [0..<n])) (FXTG g f)
     = Some (v g f)"
  by (rule map_of_tabulate2) simp_all

lemma map_of_FXT:
  "j < n \<Longrightarrow> map_of (map (\<lambda>i. (FXT i, v i)) [0..<n]) (FXT j) = Some (v j)"
  using map_of_tabulate [of FXT j n v] by (simp add: inj_def)

lemma map_of_FZT:
  "j < n \<Longrightarrow> map_of (map (\<lambda>i. (FZT i, v i)) [0..<n]) (FZT j) = Some (v j)"
  using map_of_tabulate [of FZT j n v] by (simp add: inj_def)

lemma map_of_FZT_None:
  "map_of (map (\<lambda>i. (FZT i, v i)) [0..<n]) (FXTG g f) = None"
  by (rule map_of_tabulate_None) simp

lemma states_of_example:
  "states_of (example_model X T) VT = Some 10"
  "states_of (example_model X T) VX1 = Some 201"
  "states_of (example_model X T) VX2 = Some 201"
  by (simp_all add: example_model_def states_of_def)

lemma states_of_shallow:
  "states_of (shallow_model X T) VT = Some 10"
  "nbf < 400 \<Longrightarrow> states_of (shallow_model X T) (VX nbf) = Some 2"
  by (simp_all add: shallow_model_def map_of_VX states_of_def)

lemma states_of_hier:
  "states_of (hier_model X T Z) VT = Some 10"
  "grp < 16 \<Longrightarrow> states_of (hier_model X T Z) (VZ grp) = Some 12"
  "grp < 16 \<Longrightarrow> nbf < 25 \<Longrightarrow> states_of (hier_model X T Z) (VXG grp nbf) = Some 2"
  by (simp_all add: hier_model_def map_of_VZ map_of_VXG map_of_VZ_None map_add_def
      states_of_def)

lemma table_fits_FT:
  assumes "states_of m VT = Some 10"
  shows "table_fits m (snd (FT_node T))"
  using assms
  by (simp add: table_fits_def FT_node_def has_shape_log_vector PT_def add_one_normalise_def)

lemma table_fits_example:
  "\<forall>(i, f) \<in> set (factor_nodes (example_model X T)). table_fits (example_model X T) f"
proof -
  have "table_fits (example_model X T) (snd (FT_node T))"
    by (rule table_fits_FT) (rule states_of_example)
  moreover have "table_fits (example_model X T)
       \<lparr>fname = nm, logtable = log_table (matrix (level_PXT L T)), variables = [VT, v]\<rparr>"
    if "v = VX1 \<or> v = VX2" for L v nm
    using that
    by (auto simp: table_fits_def has_shape_log_matrix states_of_example level_PXT_def
        add_one_normalise_def)
  ultimately show ?thesis
    by (cases "FT_node T") (simp add: example_model_def)
qed

lemma table_fits_shallow:
  "\<forall>(i, f) \<in> set (factor_nodes (shallow_model X T)). table_fits (shallow_model X T) f"
proof -
  have "table_fits (shallow_model X T) (snd (FT_node T))"
    by (rule table_fits_FT) (rule states_of_shallow)
  moreover have "table_fits (shallow_model X T)
       \<lparr>fname = nm, logtable = log_table (matrix (map (map plus_eps) (shallow_PXT X T nbf))),
        variables = [VT, VX nbf]\<rparr>"
    if "nbf < 400" for nbf nm
    using that
    by (auto simp: table_fits_def has_shape_log_matrix states_of_shallow shallow_PXT_def Let_def)
  ultimately show ?thesis
    by (cases "FT_node T") (auto simp: shallow_model_def)
qed

lemma table_fits_hier:
  "\<forall>(i, f) \<in> set (factor_nodes (hier_model X T Z)). table_fits (hier_model X T Z) f"
proof -
  have "table_fits (hier_model X T Z) (snd (FT_node T))"
    by (rule table_fits_FT) (rule states_of_hier)
  moreover have "table_fits (hier_model X T Z)
       \<lparr>fname = nm, logtable = log_table (matrix (map (map plus_eps) (hier_PZT Z T grp))),
        variables = [VT, VZ grp]\<rparr>"
    if "grp < 16" for grp nm
    using that
    by (auto simp: table_fits_def has_shape_log_matrix states_of_hier hier_PZT_def Let_def)
  moreover have "table_fits (hier_model X T Z)
       \<lparr>fname = nm, logtable = log_table (matrix (map (map plus_eps) (hier_PXT X Z grp nbf))),
        variables = [VZ grp, VXG grp nbf]\<rparr>"
    if "grp < 16" "nbf < 25" for grp nbf nm
    using that
    by (auto simp: table_fits_def has_shape_log_matrix states_of_hier hier_PXT_def Let_def)
  ultimately show ?thesis
    by (cases "FT_node T") (auto simp: hier_model_def)
qed

lemma factors_example:
  "map_of (factor_nodes (example_model X T)) FT = Some (snd (FT_node T))"
  "map_of (factor_nodes (example_model X T)) FXT1 =
     Some \<lparr>fname = ''FXT'', logtable = log_table (matrix (level_PXT (Xtop X) T)),
           variables = [VT, VX1]\<rparr>"
  "map_of (factor_nodes (example_model X T)) FXT2 =
     Some \<lparr>fname = ''FXT'', logtable = log_table (matrix (level_PXT (Xbot X) T)),
           variables = [VT, VX2]\<rparr>"
  by (simp_all add: example_model_def FT_node_def)

lemma factors_shallow:
  "map_of (factor_nodes (shallow_model X T)) FT = Some (snd (FT_node T))"
  "nbf < 400 \<Longrightarrow> map_of (factor_nodes (shallow_model X T)) (FXT nbf) =
     Some \<lparr>fname = ''FXT['' @ decimal nbf @ '']'',
           logtable = log_table (matrix (map (map plus_eps) (shallow_PXT X T nbf))),
           variables = [VT, VX nbf]\<rparr>"
  by (simp_all add: shallow_model_def FT_node_def map_of_FXT)

lemma factors_hier:
  "map_of (factor_nodes (hier_model X T Z)) FT = Some (snd (FT_node T))"
  "grp < 16 \<Longrightarrow> map_of (factor_nodes (hier_model X T Z)) (FZT grp) =
     Some \<lparr>fname = ''FXT['' @ decimal grp @ '']'',
           logtable = log_table (matrix (map (map plus_eps) (hier_PZT Z T grp))),
           variables = [VT, VZ grp]\<rparr>"
  "grp < 16 \<Longrightarrow> nbf < 25 \<Longrightarrow> map_of (factor_nodes (hier_model X T Z)) (FXTG grp nbf) =
     Some \<lparr>fname = ''FXT['' @ decimal grp @ ''][''  @ decimal nbf @ '']'',
           logtable = log_table (matrix (map (map plus_eps) (hier_PXT X Z grp nbf))),
           variables = [VZ grp, VXG grp nbf]\<rparr>"
  by (simp_all add: hier_model_def FT_node_def map_of_FZT map_of_FXTG map_of_FZT_None
      map_add_def)

lemmas table_lengths =
  FT_node_def has_shape_log_vector has_shape_log_matrix PT_def level_PXT_def
  shallow_PXT_def hier_PZT_def hier_PXT_def add_one_normalise_def Let_def

lemma has_factor_example:
  "has_factor (example_model X T) FT [VT] [10]"
  "has_factor (example_model X T) FXT1 [VT, VX1] [10, 201]"
  "has_factor (example_model X T) FXT2 [VT, VX2] [10, 201]"
  by (simp_all add: has_factor_def states_of_example factors_example table_lengths)

lemma has_factor_shallow:
  "has_factor (shallow_model X T) FT [VT] [10]"
  "nbf < 400 \<Longrightarrow> has_factor (shallow_model X T) (FXT nbf) [VT, VX nbf] [10, 2]"
  by (simp_all add: has_factor_def states_of_shallow factors_shallow table_lengths)

lemma has_factor_hier:
  "has_factor (hier_model X T Z) FT [VT] [10]"
  "grp < 16 \<Longrightarrow> has_factor (hier_model X T Z) (FZT grp) [VT, VZ grp] [10, 12]"
  "grp < 16 \<Longrightarrow> nbf < 25 \<Longrightarrow>
     has_factor (hier_model X T Z) (FXTG grp nbf) [VZ grp, VXG grp nbf] [12, 2]"
  by (simp_all add: has_factor_def states_of_hier factors_hier table_lengths)

text \<open>
  C7. In the three models every factor node is built with a table whose shape is the list
  of the numbers of states of its variable nodes: \<open>FT\<close> has shape (10,) over \<open>[VT]\<close>,
  \<open>FXT1\<close> and \<open>FXT2\<close> have shape (10, 201) over \<open>[VT, VX1]\<close> and \<open>[VT, VX2]\<close>, each shallow
  \<open>FXT[i]\<close> has shape (10, 2) over \<open>[VT, VX[i]]\<close>, each \<open>FZT[g]\<close> has shape (10, 12) over
  \<open>[VT, VZ[g]]\<close>, and each hierarchical \<open>FXT[g][f]\<close> has shape (12, 2) over
  \<open>[VZ[g], VX[g][f]]\<close>.
\<close>

theorem factor_tables_fit_variables:
  "(\<forall>(i, f) \<in> set (factor_nodes (example_model X T)). table_fits (example_model X T) f) \<and>
   (\<forall>(i, f) \<in> set (factor_nodes (shallow_model X T)). table_fits (shallow_model X T) f) \<and>
   (\<forall>(i, f) \<in> set (factor_nodes (hier_model X T Z)). table_fits (hier_model X T Z) f) \<and>
   has_factor (example_model X T) FT [VT] [10] \<and>
   has_factor (example_model X T) FXT1 [VT, VX1] [10, 201] \<and>
   has_factor (example_model X T) FXT2 [VT, VX2] [10, 201] \<and>
   has_factor (shallow_model X T) FT [VT] [10] \<and>
   (\<forall>nbf < 400. has_factor (shallow_model X T) (FXT nbf) [VT, VX nbf] [10, 2]) \<and>
   has_factor (hier_model X T Z) FT [VT] [10] \<and>
   (\<forall>grp < 16. has_factor (hier_model X T Z) (FZT grp) [VT, VZ grp] [10, 12]) \<and>
   (\<forall>grp < 16. \<forall>nbf < 25.
      has_factor (hier_model X T Z) (FXTG grp nbf) [VZ grp, VXG grp nbf] [12, 2])"
  using table_fits_example [of X T] table_fits_shallow [of X T] table_fits_hier [of X T Z]
    has_factor_example has_factor_shallow has_factor_hier
  by simp

theorem factor_tables_fit_variables_witness:
  "has_factor (shallow_model [] []) (FXT 7) [VT, VX 7] [10, 2] \<and>
   has_factor (hier_model [] [] []) (FXTG 3 24) [VZ 3, VXG 3 24] [12, 2] \<and>
   table_fits (example_model [] []) (snd (FT_node []))"
proof -
  have "(FT, snd (FT_node [])) \<in> set (factor_nodes (example_model [] []))"
    by (simp add: example_model_def FT_node_def)
  then show ?thesis
    using factor_tables_fit_variables [of "[]" "[]" "[]"] by fastforce
qed


lemma connected_by_depth:
  fixes d :: "'a \<Rightarrow> nat"
  assumes sym: "\<And>a b. E a b \<Longrightarrow> E b a"
    and up: "\<And>a. a \<in> N \<Longrightarrow> 0 < d a \<Longrightarrow> \<exists>b \<in> N. E a b \<and> d a = Suc (d b)"
    and root: "\<And>a. a \<in> N \<Longrightarrow> d a = 0 \<Longrightarrow> a = r"
  shows "connected_graph N E"
proof -
  let ?R = "{(x, y). E x y}"
  have reach: "a \<in> N \<Longrightarrow> d a = n \<Longrightarrow> (a, r) \<in> ?R\<^sup>*" for a n
  proof (induction n arbitrary: a)
    case 0
    then show ?case using root by auto
  next
    case (Suc n)
    then obtain b where b: "b \<in> N" "E a b" "d a = Suc (d b)" using up [of a] by auto
    then have "(b, r) \<in> ?R\<^sup>*" using Suc by simp
    moreover have "(a, b) \<in> ?R" using b(2) by simp
    ultimately show ?case by (rule converse_rtrancl_into_rtrancl [rotated])
  qed
  have symR: "sym ?R" using sym by (auto simp: sym_def)
  have from_root: "(r, a) \<in> ?R\<^sup>*" if "a \<in> N" for a
  proof -
    have "(a, r) \<in> ?R\<^sup>*" using reach that by blast
    then have "(r, a) \<in> (?R\<^sup>*)\<inverse>" by simp
    then show ?thesis using symR by (simp add: rtrancl_converse [symmetric] sym_conv_converse_eq)
  qed
  show ?thesis
    unfolding connected_graph_def using reach from_root by (meson rtrancl_trans)
qed

lemma no_cycle_by_depth:
  fixes d :: "'a \<Rightarrow> nat"
  assumes sym: "\<And>a b. E a b \<Longrightarrow> E b a"
    and step: "\<And>a b. E a b \<Longrightarrow> d a = Suc (d b) \<or> d b = Suc (d a)"
    and uniq: "\<And>a b c. E a b \<Longrightarrow> E a c \<Longrightarrow> d a = Suc (d b) \<Longrightarrow> d a = Suc (d c) \<Longrightarrow> b = c"
  shows "\<not> cycle E p"
proof
  assume c: "cycle E p"
  define n where "n = length p"
  have n: "3 \<le> n" and dist: "distinct p"
    and path: "\<And>i. Suc i < n \<Longrightarrow> E (p ! i) (p ! Suc i)" and close: "E (last p) (hd p)"
    using c by (auto simp: cycle_def n_def)
  have last: "last p = p ! (n - 1)" and hd: "hd p = p ! 0"
  proof -
    have "p \<noteq> []" using n by (auto simp: n_def)
    then show "last p = p ! (n - 1)" "hd p = p ! 0"
      by (simp_all add: n_def last_conv_nth hd_conv_nth)
  qed
  \<comment> \<open>a position of greatest depth\<close>
  have "\<exists>i < n. \<forall>j < n. d (p ! j) \<le> d (p ! i)"
  proof -
    have "finite (d ` set p)" "d ` set p \<noteq> {}" using n by (auto simp: n_def)
    then have "Max (d ` set p) \<in> d ` set p" by (rule Max_in)
    then obtain x where x: "x \<in> set p" "d x = Max (d ` set p)" by auto
    then obtain i where i: "i < n" "p ! i = x" by (auto simp: in_set_conv_nth n_def)
    have "d (p ! j) \<le> d (p ! i)" if "j < n" for j
      using that i x by (simp add: n_def)
    then show ?thesis using i(1) by blast
  qed
  then obtain i where i: "i < n" and mx: "\<And>j. j < n \<Longrightarrow> d (p ! j) \<le> d (p ! i)" by blast
  \<comment> \<open>its two neighbours on the cycle\<close>
  define s where "s = (if Suc i = n then 0 else Suc i)"
  define q where "q = (if i = 0 then n - 1 else i - 1)"
  have s: "s < n" and q: "q < n" and sq: "s \<noteq> q" and si: "s \<noteq> i" and qi: "q \<noteq> i"
    using n i by (auto simp: s_def q_def)
  have Es: "E (p ! i) (p ! s)"
  proof (cases "Suc i = n")
    case True
    then have "n - 1 = i" by simp
    then show ?thesis using close last hd True by (simp add: s_def)
  next
    case False
    then show ?thesis using path [of i] i by (simp add: s_def)
  qed
  have Eq: "E (p ! i) (p ! q)"
  proof (cases "i = 0")
    case True
    then show ?thesis using sym [OF close] last hd by (simp add: q_def)
  next
    case False
    then have "E (p ! (i - 1)) (p ! i)" using path [of "i - 1"] i by simp
    then show ?thesis using False sym by (simp add: q_def)
  qed
  have "d (p ! i) = Suc (d (p ! s))" using step [OF Es] mx [OF s] by auto
  moreover have "d (p ! i) = Suc (d (p ! q))" using step [OF Eq] mx [OF q] by auto
  ultimately have "p ! s = p ! q" using uniq [OF Es Eq] by simp
  then show False
    using dist s q sq by (simp add: nth_eq_iff_index_eq n_def)
qed

lemma edge_sym: "edge m a b \<Longrightarrow> edge m b a"
  by (auto simp: edge_def)

lemma is_tree_by_depth:
  assumes root: "V VT \<in> nodes m"
    and ends: "\<And>a b. edge m a b \<Longrightarrow> a \<in> nodes m \<and> b \<in> nodes m"
    and simple: "\<forall>(i, f) \<in> set (factor_nodes m). distinct (variables f)"
    and step: "\<And>a b. edge m a b \<Longrightarrow> depth a = Suc (depth b) \<or> depth b = Suc (depth a)"
    and uniq: "\<And>a b c. edge m a b \<Longrightarrow> edge m a c \<Longrightarrow>
                 depth a = Suc (depth b) \<Longrightarrow> depth a = Suc (depth c) \<Longrightarrow> b = c"
    and up: "\<And>a. a \<in> nodes m \<Longrightarrow> 0 < depth a \<Longrightarrow>
               \<exists>b \<in> nodes m. edge m a b \<and> depth a = Suc (depth b)"
    and only: "\<And>a. a \<in> nodes m \<Longrightarrow> depth a = 0 \<Longrightarrow> a = V VT"
  shows "is_tree m"
proof -
  have "connected_graph (nodes m) (edge m)"
  proof (rule connected_by_depth [where d = depth and r = "V VT"])
    show "\<And>a b. edge m a b \<Longrightarrow> edge m b a" by (rule edge_sym)
  qed (use up only in blast)+
  moreover have "\<not> cycle (edge m) p" for p
  proof (rule no_cycle_by_depth [where d = depth])
    show "\<And>a b. edge m a b \<Longrightarrow> edge m b a" by (rule edge_sym)
  qed (use step uniq in blast)+
  ultimately show ?thesis
    unfolding is_tree_def using root ends simple by blast
qed

lemma edgeI:
  assumes "map_of (factor_nodes m) i = Some f" "v \<in> set (variables f)"
  shows "edge m (F i) (V v)" "edge m (V v) (F i)"
  using assms by (auto simp: edge_def dest!: map_of_SomeD)

lemma node_VI: "states_of m v = Some n \<Longrightarrow> V v \<in> nodes m"
  by (auto simp: states_of_def nodes_def image_iff dest!: map_of_SomeD) force

lemma node_FI: "map_of (factor_nodes m) i = Some f \<Longrightarrow> F i \<in> nodes m"
  by (auto simp: nodes_def image_iff dest!: map_of_SomeD) force

lemma edge_example:
  "edge (example_model X T) a b \<Longrightarrow> example_incident a b \<or> example_incident b a"
  by (auto simp: edge_def example_model_def FT_node_def example_incident_def)

lemma edge_shallow:
  "edge (shallow_model X T) a b \<Longrightarrow> shallow_incident a b \<or> shallow_incident b a"
  by (auto simp: edge_def shallow_model_def FT_node_def shallow_incident_def)

lemma edge_hier:
  "edge (hier_model X T Z) a b \<Longrightarrow> hier_incident a b \<or> hier_incident b a"
  by (auto simp: edge_def hier_model_def FT_node_def hier_incident_def)

lemma incident_example:
  assumes "example_incident a b"
  shows "edge (example_model X T) a b \<and> edge (example_model X T) b a"
proof -
  let ?m = "example_model X T"
  have "edge ?m (F FT) (V VT) \<and> edge ?m (V VT) (F FT)"
    using edgeI [OF factors_example(1)] by (simp add: FT_node_def)
  moreover have "edge ?m (F FXT1) (V v) \<and> edge ?m (V v) (F FXT1)" if "v = VT \<or> v = VX1" for v
    using edgeI [OF factors_example(2)] that by auto
  moreover have "edge ?m (F FXT2) (V v) \<and> edge ?m (V v) (F FXT2)" if "v = VT \<or> v = VX2" for v
    using edgeI [OF factors_example(3)] that by auto
  ultimately show ?thesis
    using assms unfolding example_incident_def by blast
qed

lemma incident_shallow:
  assumes "shallow_incident a b"
  shows "edge (shallow_model X T) a b \<and> edge (shallow_model X T) b a"
proof -
  let ?m = "shallow_model X T"
  have "edge ?m (F FT) (V VT) \<and> edge ?m (V VT) (F FT)"
    using edgeI [OF factors_shallow(1)] by (simp add: FT_node_def)
  moreover have "edge ?m (F (FXT i)) (V v) \<and> edge ?m (V v) (F (FXT i))"
    if "i < 400" "v = VT \<or> v = VX i" for i v
    using edgeI [OF factors_shallow(2) [OF that(1)]] that(2) by auto
  ultimately show ?thesis
    using assms unfolding shallow_incident_def by blast
qed

lemma incident_hier:
  assumes "hier_incident a b"
  shows "edge (hier_model X T Z) a b \<and> edge (hier_model X T Z) b a"
proof -
  let ?m = "hier_model X T Z"
  have "edge ?m (F FT) (V VT) \<and> edge ?m (V VT) (F FT)"
    using edgeI [OF factors_hier(1)] by (simp add: FT_node_def)
  moreover have "edge ?m (F (FZT g)) (V v) \<and> edge ?m (V v) (F (FZT g))"
    if "g < 16" "v = VT \<or> v = VZ g" for g v
    using edgeI [OF factors_hier(2) [OF that(1)]] that(2) by auto
  moreover have "edge ?m (F (FXTG g f)) (V v) \<and> edge ?m (V v) (F (FXTG g f))"
    if "g < 16" "f < 25" "v = VZ g \<or> v = VXG g f" for g f v
    using edgeI [OF factors_hier(3) [OF that(1,2)]] that(3) by auto
  ultimately show ?thesis
    using assms unfolding hier_incident_def by blast
qed

lemma nodes_example:
  "a \<in> nodes (example_model X T) \<Longrightarrow> a \<in> {V VT, V VX1, V VX2, F FT, F FXT1, F FXT2}"
  by (auto simp: nodes_def example_model_def FT_node_def)

lemma nodes_shallow:
  "a \<in> nodes (shallow_model X T) \<Longrightarrow>
     a = V VT \<or> a = F FT \<or> (\<exists>i < 400. a = V (VX i)) \<or> (\<exists>i < 400. a = F (FXT i))"
  by (auto simp: nodes_def shallow_model_def FT_node_def)

lemma nodes_hier:
  "a \<in> nodes (hier_model X T Z) \<Longrightarrow>
     a = V VT \<or> a = F FT \<or> (\<exists>g < 16. a = V (VZ g)) \<or> (\<exists>g < 16. a = F (FZT g)) \<or>
     (\<exists>g < 16. \<exists>f < 25. a = V (VXG g f)) \<or> (\<exists>g < 16. \<exists>f < 25. a = F (FXTG g f))"
  by (auto simp: nodes_def hier_model_def FT_node_def)

lemma depth_example_incident:
  "example_incident a b \<Longrightarrow> depth a = Suc (depth b) \<or> depth b = Suc (depth a)"
  by (auto simp: example_incident_def)

lemma depth_shallow_incident:
  "shallow_incident a b \<Longrightarrow> depth a = Suc (depth b) \<or> depth b = Suc (depth a)"
  by (auto simp: shallow_incident_def)

lemma depth_hier_incident:
  "hier_incident a b \<Longrightarrow> depth a = Suc (depth b) \<or> depth b = Suc (depth a)"
  by (auto simp: hier_incident_def)

lemma parent_example_incident:
  "example_incident a b \<or> example_incident b a \<Longrightarrow>
   example_incident a c \<or> example_incident c a \<Longrightarrow>
   depth a = Suc (depth b) \<Longrightarrow> depth a = Suc (depth c) \<Longrightarrow> b = c"
  by (auto simp: example_incident_def)

lemma parent_shallow_incident:
  "shallow_incident a b \<or> shallow_incident b a \<Longrightarrow>
   shallow_incident a c \<or> shallow_incident c a \<Longrightarrow>
   depth a = Suc (depth b) \<Longrightarrow> depth a = Suc (depth c) \<Longrightarrow> b = c"
  by (auto simp: shallow_incident_def)

lemma parent_hier_incident:
  "hier_incident a b \<or> hier_incident b a \<Longrightarrow>
   hier_incident a c \<or> hier_incident c a \<Longrightarrow>
   depth a = Suc (depth b) \<Longrightarrow> depth a = Suc (depth c) \<Longrightarrow> b = c"
  by (auto simp: hier_incident_def)

lemma up_example_incident:
  assumes "a \<in> {V VT, V VX1, V VX2, F FT, F FXT1, F FXT2}" and "0 < depth a"
  shows "\<exists>b. (example_incident a b \<or> example_incident b a) \<and> depth a = Suc (depth b)"
proof -
  consider "a = F FT \<or> a = F FXT1 \<or> a = F FXT2" | "a = V VX1" | "a = V VX2"
    using assms by auto
  then show ?thesis
  proof cases
    case 1
    then show ?thesis by (intro exI [of _ "V VT"]) (auto simp: example_incident_def)
  next
    case 2
    then show ?thesis by (intro exI [of _ "F FXT1"]) (simp add: example_incident_def)
  next
    case 3
    then show ?thesis by (intro exI [of _ "F FXT2"]) (simp add: example_incident_def)
  qed
qed

lemma up_shallow_incident:
  assumes "a = V VT \<or> a = F FT \<or> (\<exists>i < 400. a = V (VX i)) \<or> (\<exists>i < 400. a = F (FXT i))"
    and "0 < depth a"
  shows "\<exists>b. (shallow_incident a b \<or> shallow_incident b a) \<and> depth a = Suc (depth b)"
proof -
  consider "a = F FT" | i where "i < 400" "a = V (VX i)" | i where "i < 400" "a = F (FXT i)"
    using assms by auto
  then show ?thesis
  proof cases
    case 1
    then show ?thesis by (intro exI [of _ "V VT"]) (simp add: shallow_incident_def)
  next
    case 2
    then show ?thesis by (intro exI [of _ "F (FXT i)"]) (simp add: shallow_incident_def)
  next
    case 3
    then show ?thesis by (intro exI [of _ "V VT"]) (simp add: shallow_incident_def)
  qed
qed

lemma up_hier_incident:
  assumes "a = V VT \<or> a = F FT \<or> (\<exists>g < 16. a = V (VZ g)) \<or> (\<exists>g < 16. a = F (FZT g)) \<or>
     (\<exists>g < 16. \<exists>f < 25. a = V (VXG g f)) \<or> (\<exists>g < 16. \<exists>f < 25. a = F (FXTG g f))"
    and "0 < depth a"
  shows "\<exists>b. (hier_incident a b \<or> hier_incident b a) \<and> depth a = Suc (depth b)"
proof -
  consider "a = F FT" | g where "g < 16" "a = V (VZ g)" | g where "g < 16" "a = F (FZT g)"
    | g f where "g < 16" "f < 25" "a = V (VXG g f)"
    | g f where "g < 16" "f < 25" "a = F (FXTG g f)"
    using assms by auto
  then show ?thesis
  proof cases
    case 1
    then show ?thesis by (intro exI [of _ "V VT"]) (simp add: hier_incident_def)
  next
    case 2
    then show ?thesis by (intro exI [of _ "F (FZT g)"]) (simp add: hier_incident_def)
  next
    case 3
    then show ?thesis by (intro exI [of _ "V VT"]) (simp add: hier_incident_def)
  next
    case 4
    then show ?thesis by (intro exI [of _ "F (FXTG g f)"]) (simp add: hier_incident_def)
  next
    case 5
    then show ?thesis by (intro exI [of _ "V (VZ g)"]) (simp add: hier_incident_def)
  qed
qed

lemma ends_example:
  assumes "edge (example_model X T) a b"
  shows "a \<in> nodes (example_model X T) \<and> b \<in> nodes (example_model X T)"
proof -
  have "example_incident x y \<Longrightarrow> x \<in> nodes (example_model X T) \<and> y \<in> nodes (example_model X T)"
    for x y
    using node_VI [OF states_of_example(1), of X T] node_VI [OF states_of_example(2), of X T]
      node_VI [OF states_of_example(3), of X T]
      node_FI [OF factors_example(1), of X T] node_FI [OF factors_example(2), of X T]
      node_FI [OF factors_example(3), of X T]
    by (auto simp: example_incident_def)
  then show ?thesis using edge_example [OF assms] by blast
qed

lemma ends_shallow:
  assumes "edge (shallow_model X T) a b"
  shows "a \<in> nodes (shallow_model X T) \<and> b \<in> nodes (shallow_model X T)"
proof -
  have "shallow_incident x y \<Longrightarrow> x \<in> nodes (shallow_model X T) \<and> y \<in> nodes (shallow_model X T)"
    for x y
    using node_VI [OF states_of_shallow(1), of X T] node_VI [OF states_of_shallow(2), of _ X T]
      node_FI [OF factors_shallow(1), of X T] node_FI [OF factors_shallow(2), of _ X T]
    by (auto simp: shallow_incident_def)
  then show ?thesis using edge_shallow [OF assms] by blast
qed

lemma ends_hier:
  assumes "edge (hier_model X T Z) a b"
  shows "a \<in> nodes (hier_model X T Z) \<and> b \<in> nodes (hier_model X T Z)"
proof -
  have "hier_incident x y \<Longrightarrow> x \<in> nodes (hier_model X T Z) \<and> y \<in> nodes (hier_model X T Z)"
    for x y
    using node_VI [OF states_of_hier(1), of X T Z] node_VI [OF states_of_hier(2), of _ X T Z]
      node_VI [OF states_of_hier(3), of _ _ X T Z]
      node_FI [OF factors_hier(1), of X T Z] node_FI [OF factors_hier(2), of _ X T Z]
      node_FI [OF factors_hier(3), of _ _ X T Z]
    by (auto simp: hier_incident_def)
  then show ?thesis using edge_hier [OF assms] by blast
qed

lemma is_tree_example: "is_tree (example_model X T)"
proof (rule is_tree_by_depth)
  let ?m = "example_model X T"
  show "V VT \<in> nodes ?m" by (rule node_VI [OF states_of_example(1)])
  show "\<forall>(i, f) \<in> set (factor_nodes ?m). distinct (variables f)"
    by (auto simp: example_model_def FT_node_def)
  show "\<And>a b. edge ?m a b \<Longrightarrow> a \<in> nodes ?m \<and> b \<in> nodes ?m" by (rule ends_example)
  show "depth a = Suc (depth b) \<or> depth b = Suc (depth a)" if e: "edge ?m a b" for a b
  proof -
    from edge_example [OF e] show ?thesis
    proof
      assume "example_incident a b"
      then show ?thesis by (rule depth_example_incident)
    next
      assume "example_incident b a"
      then have "depth b = Suc (depth a) \<or> depth a = Suc (depth b)" by (rule depth_example_incident)
      then show ?thesis by blast
    qed
  qed
  show "b = c"
    if "edge ?m a b" "edge ?m a c" "depth a = Suc (depth b)" "depth a = Suc (depth c)" for a b c
    by (rule parent_example_incident [OF edge_example [OF that(1)] edge_example [OF that(2)] that(3,4)])
  show "\<exists>b \<in> nodes ?m. edge ?m a b \<and> depth a = Suc (depth b)"
    if a: "a \<in> nodes ?m" and d: "0 < depth a" for a
  proof -
    obtain b where b: "example_incident a b \<or> example_incident b a" "depth a = Suc (depth b)"
      using up_example_incident [OF nodes_example [OF a] d] by blast
    have e: "edge ?m a b" using b(1) incident_example [of a b X T] incident_example [of b a X T] by blast
    then have "b \<in> nodes ?m" using ends_example [of X T a b] by blast
    then show ?thesis using e b(2) by blast
  qed
  show "a = V VT" if a: "a \<in> nodes ?m" and d: "depth a = 0" for a
    using nodes_example [OF a] d by auto
qed

lemma is_tree_shallow: "is_tree (shallow_model X T)"
proof (rule is_tree_by_depth)
  let ?m = "shallow_model X T"
  show "V VT \<in> nodes ?m" by (rule node_VI [OF states_of_shallow(1)])
  show "\<forall>(i, f) \<in> set (factor_nodes ?m). distinct (variables f)"
    by (auto simp: shallow_model_def FT_node_def)
  show "\<And>a b. edge ?m a b \<Longrightarrow> a \<in> nodes ?m \<and> b \<in> nodes ?m" by (rule ends_shallow)
  show "depth a = Suc (depth b) \<or> depth b = Suc (depth a)" if e: "edge ?m a b" for a b
  proof -
    from edge_shallow [OF e] show ?thesis
    proof
      assume "shallow_incident a b"
      then show ?thesis by (rule depth_shallow_incident)
    next
      assume "shallow_incident b a"
      then have "depth b = Suc (depth a) \<or> depth a = Suc (depth b)" by (rule depth_shallow_incident)
      then show ?thesis by blast
    qed
  qed
  show "b = c"
    if "edge ?m a b" "edge ?m a c" "depth a = Suc (depth b)" "depth a = Suc (depth c)" for a b c
    by (rule parent_shallow_incident [OF edge_shallow [OF that(1)] edge_shallow [OF that(2)] that(3,4)])
  show "\<exists>b \<in> nodes ?m. edge ?m a b \<and> depth a = Suc (depth b)"
    if a: "a \<in> nodes ?m" and d: "0 < depth a" for a
  proof -
    obtain b where b: "shallow_incident a b \<or> shallow_incident b a" "depth a = Suc (depth b)"
      using up_shallow_incident [OF nodes_shallow [OF a] d] by blast
    have e: "edge ?m a b" using b(1) incident_shallow [of a b X T] incident_shallow [of b a X T] by blast
    then have "b \<in> nodes ?m" using ends_shallow [of X T a b] by blast
    then show ?thesis using e b(2) by blast
  qed
  show "a = V VT" if a: "a \<in> nodes ?m" and d: "depth a = 0" for a
    using nodes_shallow [OF a] d by auto
qed

lemma is_tree_hier: "is_tree (hier_model X T Z)"
proof (rule is_tree_by_depth)
  let ?m = "hier_model X T Z"
  show "V VT \<in> nodes ?m" by (rule node_VI [OF states_of_hier(1)])
  show "\<forall>(i, f) \<in> set (factor_nodes ?m). distinct (variables f)"
    by (auto simp: hier_model_def FT_node_def)
  show "\<And>a b. edge ?m a b \<Longrightarrow> a \<in> nodes ?m \<and> b \<in> nodes ?m" by (rule ends_hier)
  show "depth a = Suc (depth b) \<or> depth b = Suc (depth a)" if e: "edge ?m a b" for a b
  proof -
    from edge_hier [OF e] show ?thesis
    proof
      assume "hier_incident a b"
      then show ?thesis by (rule depth_hier_incident)
    next
      assume "hier_incident b a"
      then have "depth b = Suc (depth a) \<or> depth a = Suc (depth b)" by (rule depth_hier_incident)
      then show ?thesis by blast
    qed
  qed
  show "b = c"
    if "edge ?m a b" "edge ?m a c" "depth a = Suc (depth b)" "depth a = Suc (depth c)" for a b c
    by (rule parent_hier_incident [OF edge_hier [OF that(1)] edge_hier [OF that(2)] that(3,4)])
  show "\<exists>b \<in> nodes ?m. edge ?m a b \<and> depth a = Suc (depth b)"
    if a: "a \<in> nodes ?m" and d: "0 < depth a" for a
  proof -
    obtain b where b: "hier_incident a b \<or> hier_incident b a" "depth a = Suc (depth b)"
      using up_hier_incident [OF nodes_hier [OF a] d] by blast
    have e: "edge ?m a b" using b(1) incident_hier [of a b X T Z] incident_hier [of b a X T Z] by blast
    then have "b \<in> nodes ?m" using ends_hier [of X T Z a b] by blast
    then show ?thesis using e b(2) by blast
  qed
  show "a = V VT" if a: "a \<in> nodes ?m" and d: "depth a = 0" for a
    using nodes_hier [OF a] d by auto
qed

text \<open>
  C5. For each of the three models the bipartite graph of variable nodes and factor nodes
  is connected and has no cycle, and \<open>VT\<close> is one of its nodes.
\<close>

theorem models_are_trees:
  "is_tree (example_model X T) \<and> is_tree (shallow_model X T) \<and> is_tree (hier_model X T Z)"
  using is_tree_example is_tree_shallow is_tree_hier by blast

theorem models_are_trees_witness:
  "(V VT, V (VXG 3 7)) \<in> {(x, y). edge (hier_model [] [] []) x y}\<^sup>* \<and>
   \<not> cycle (edge (shallow_model [] [])) [V VT, F (FXT 0), V (VX 0)] \<and>
   (F FXT1, V VX2) \<in> {(x, y). edge (example_model [] []) x y}\<^sup>*"
proof -
  have "V (VXG 3 7) \<in> nodes (hier_model [] [] [])"
    by (rule node_VI [OF states_of_hier(3)]) simp_all
  moreover have "F FXT1 \<in> nodes (example_model [] [])"
    by (rule node_FI [OF factors_example(2)])
  moreover have "V VX2 \<in> nodes (example_model [] [])"
    by (rule node_VI [OF states_of_example(3)])
  ultimately show ?thesis
    using models_are_trees [of "[]" "[]" "[]"]
    unfolding is_tree_def connected_graph_def by blast
qed

lemma fold_assign_out:
  "(\<And>i. i < n \<Longrightarrow> v \<noteq> k i) \<Longrightarrow> fold (\<lambda>i e. e(k i := Some (g i))) [0..<n] ev v = ev v"
  by (induction n) simp_all

lemma fold_assign_in:
  assumes "inj k" "j < n"
  shows "fold (\<lambda>i e. e(k i := Some (g i))) [0..<n] ev (k j) = Some (g j)"
  using assms(2)
proof (induction n)
  case 0
  then show ?case by simp
next
  case (Suc n)
  then show ?case using assms(1) by (cases "j = n") (auto simp: inj_def)
qed

lemma sum_list_bounds:
  fixes f :: "'a \<Rightarrow> int"
  assumes "\<And>x. x \<in> set xs \<Longrightarrow> 0 \<le> f x \<and> f x \<le> c"
  shows "0 \<le> sum_list (map f xs) \<and> sum_list (map f xs) \<le> int (length xs) * c"
  using assms
proof (induction xs)
  case Nil
  then show ?case by simp
next
  case (Cons x xs)
  then have "0 \<le> f x \<and> f x \<le> c" "0 \<le> sum_list (map f xs) \<and> sum_list (map f xs) \<le> int (length xs) * c"
    by auto
  then show ?case by (simp add: algebra_simps)
qed

lemma pixel_sum_bounds:
  assumes "\<forall>row \<in> set rows. length row = 20 \<and> (\<forall>p \<in> set row. p = 0 \<or> p = 1)"
  shows "0 \<le> pixel_sum rows \<and> pixel_sum rows \<le> 20 * int (length rows)"
proof -
  have "0 \<le> sum_list row \<and> sum_list row \<le> 20" if "row \<in> set rows" for row
  proof -
    have "p = 0 \<or> p = 1" if "p \<in> set row" for p
      using assms \<open>row \<in> set rows\<close> that by blast
    then have "\<And>p. p \<in> set row \<Longrightarrow> 0 \<le> id p \<and> id p \<le> 1" by fastforce
    from sum_list_bounds [of row id 1, OF this] show ?thesis using assms that by simp
  qed
  from sum_list_bounds [of rows sum_list 20, OF this] show ?thesis
    by (simp add: pixel_sum_def)
qed

lemma example_evidence_in_range:
  assumes "well_formed_image x" "binary_image x"
  shows "evidence_in_range (example_model X T) (example_assign x ev) VX1"
    and "evidence_in_range (example_model X T) (example_assign x ev) VX2"
proof -
  have rows: "\<forall>row \<in> set x. length row = 20 \<and> (\<forall>p \<in> set row. p = 0 \<or> p = 1)"
    using assms by (auto simp: well_formed_image_def binary_image_def)
  have "\<forall>row \<in> set (take 10 x). length row = 20 \<and> (\<forall>p \<in> set row. p = 0 \<or> p = 1)"
    using rows by (meson in_set_takeD)
  from pixel_sum_bounds [OF this]
  have top: "0 \<le> pixel_sum (take 10 x)" "pixel_sum (take 10 x) \<le> 200"
    using assms(1) by (auto simp: well_formed_image_def)
  have "\<forall>row \<in> set (drop 10 x). length row = 20 \<and> (\<forall>p \<in> set row. p = 0 \<or> p = 1)"
    using rows by (meson in_set_dropD)
  from pixel_sum_bounds [OF this]
  have bot: "0 \<le> pixel_sum (drop 10 x)" "pixel_sum (drop 10 x) \<le> 200"
    using assms(1) by (auto simp: well_formed_image_def)
  show "evidence_in_range (example_model X T) (example_assign x ev) VX1"
    using top by (simp add: evidence_in_range_def example_assign_def states_of_example)
  show "evidence_in_range (example_model X T) (example_assign x ev) VX2"
    using bot by (simp add: evidence_in_range_def example_assign_def states_of_example)
qed

lemma sum_list_all_equal:
  fixes f :: "'a \<Rightarrow> nat"
  shows "(\<And>x. x \<in> set xs \<Longrightarrow> f x = c) \<Longrightarrow> sum_list (map f xs) = length xs * c"
  by (induction xs) simp_all

lemma length_concat_all_equal:
  "(\<And>x. x \<in> set xs \<Longrightarrow> length x = c) \<Longrightarrow> length (concat xs) = length xs * c"
  by (simp add: length_concat sum_list_all_equal)

lemma length_ravel:
  assumes "well_formed_image x"
  shows "length (ravel x) = 400"
  using assms length_concat_all_equal [of x 20]
  by (simp add: ravel_def well_formed_image_def)

lemma shallow_assign_well_formed:
  assumes "well_formed_image x"
  shows "fst (shallow_assign x ev) = None"
    and "nbf < 400 \<Longrightarrow> snd (shallow_assign x ev) (VX nbf) = Some (ravel x ! nbf)"
  using assms length_ravel [OF assms]
    fold_assign_in [of VX nbf 400 "\<lambda>i. ravel x ! i" ev]
  by (simp_all add: shallow_assign_def Let_def inj_def)

lemma shallow_evidence_in_range:
  assumes "well_formed_image x" "binary_image x" "nbf < 400"
  shows "evidence_in_range (shallow_model X T) (snd (shallow_assign x ev)) (VX nbf)"
proof -
  have "ravel x ! nbf \<in> set (ravel x)"
    by (rule nth_mem) (simp add: length_ravel [OF assms(1)] assms(3))
  then obtain row where "row \<in> set x" "ravel x ! nbf \<in> set row"
    by (auto simp: ravel_def)
  then have "ravel x ! nbf = 0 \<or> ravel x ! nbf = 1"
    using assms(2) unfolding binary_image_def by blast
  then show ?thesis
    using shallow_assign_well_formed(2) [OF assms(1,3), of ev] assms(3)
    by (auto simp: evidence_in_range_def states_of_shallow)
qed

lemma np_split_subset: "k < 4 \<Longrightarrow> set (np_split xs ! k) \<subseteq> set xs"
proof -
  assume "k < 4"
  then consider "k = 0" | "k = 1" | "k = 2" | "k = 3" by linarith
  then show ?thesis
    by cases (auto simp: np_split_def dest: in_set_takeD in_set_dropD)
qed

lemma np_split_length: "length xs = 20 \<Longrightarrow> k < 4 \<Longrightarrow> length (np_split xs ! k) = 5"
proof -
  assume l: "length xs = 20" and "k < 4"
  then consider "k = 0" | "k = 1" | "k = 2" | "k = 3" by linarith
  then show ?thesis
    using l by cases (simp_all add: np_split_def)
qed

lemma xsub_patch:
  assumes "p \<in> set (xsub x)"
  obtains r c where "r < 4" "c < 4"
    "p = concat (np_split (map (\<lambda>row. np_split row ! c) x) ! r)"
  using assms by (auto simp: xsub_def Let_def)

lemma length_xsub: "length (xsub x) = 16"
  by (simp add: xsub_def Let_def length_concat o_def sum_list_triv)

lemma xsub_pixels:
  assumes "p \<in> set (xsub x)"
  shows "set p \<subseteq> \<Union> (set ` set x)"
proof -
  from assms obtain r c where rc: "r < 4" "c < 4"
    "p = concat (np_split (map (\<lambda>row. np_split row ! c) x) ! r)"
    by (rule xsub_patch)
  have "set (np_split (map (\<lambda>row. np_split row ! c) x) ! r) \<subseteq> set (map (\<lambda>row. np_split row ! c) x)"
    using rc(1) by (rule np_split_subset)
  moreover have "set q \<subseteq> \<Union> (set ` set x)" if "q \<in> set (map (\<lambda>row. np_split row ! c) x)" for q
  proof -
    from that obtain row where "row \<in> set x" "q = np_split row ! c" by auto
    then show ?thesis using np_split_subset [OF rc(2), of row] by blast
  qed
  ultimately show ?thesis unfolding rc(3) by auto
qed

lemma xsub_patch_length:
  assumes "well_formed_image x" "p \<in> set (xsub x)"
  shows "length p = 25"
proof -
  from assms(2) obtain r c where rc: "r < 4" "c < 4"
    "p = concat (np_split (map (\<lambda>row. np_split row ! c) x) ! r)"
    by (rule xsub_patch)
  let ?cb = "map (\<lambda>row. np_split row ! c) x"
  have "length ?cb = 20" using assms(1) by (simp add: well_formed_image_def)
  then have five: "length (np_split ?cb ! r) = 5" using rc(1) by (rule np_split_length)
  have "length q = 5" if "q \<in> set (np_split ?cb ! r)" for q
  proof -
    have "q \<in> set ?cb" using that np_split_subset [OF rc(1), of ?cb] by blast
    then show ?thesis using assms(1) np_split_length [OF _ rc(2)]
      by (auto simp: well_formed_image_def)
  qed
  then have "length (concat (np_split ?cb ! r)) = length (np_split ?cb ! r) * 5"
    by (rule length_concat_all_equal)
  then show ?thesis using five rc(3) by simp
qed

lemma xsub_binary:
  assumes "well_formed_image x" "binary_image x" "grp < 16" "nbf < 25"
  shows "xsub x ! grp ! nbf = 0 \<or> xsub x ! grp ! nbf = 1"
proof -
  have p: "xsub x ! grp \<in> set (xsub x)" using assms(3) by (simp add: length_xsub)
  then have "nbf < length (xsub x ! grp)" using xsub_patch_length [OF assms(1)] assms(4) by simp
  then have "xsub x ! grp ! nbf \<in> set (xsub x ! grp)" by simp
  then have "xsub x ! grp ! nbf \<in> \<Union> (set ` set x)" using xsub_pixels [OF p] by blast
  then show ?thesis using assms(2) by (auto simp: binary_image_def)
qed

lemma hier_fold_Suc:
  "fold (\<lambda>grp e. fold (\<lambda>nbf e'. e'(VXG grp nbf := Some (h grp nbf))) [0..<m] e) [0..<Suc n] ev
   = fold (\<lambda>nbf e'. e'(VXG n nbf := Some (h n nbf))) [0..<m]
       (fold (\<lambda>grp e. fold (\<lambda>nbf e'. e'(VXG grp nbf := Some (h grp nbf))) [0..<m] e) [0..<n] ev)"
  by simp

lemma hier_fold_out:
  "(\<And>g f. g < n \<Longrightarrow> f < m \<Longrightarrow> v \<noteq> VXG g f) \<Longrightarrow>
   fold (\<lambda>grp e. fold (\<lambda>nbf e'. e'(VXG grp nbf := Some (h grp nbf))) [0..<m] e) [0..<n] ev v
     = ev v"
proof (induction n)
  case 0
  then show ?case by simp
next
  case (Suc n)
  have step: "fold (\<lambda>nbf e'. e'(VXG n nbf := Some (h n nbf))) [0..<m] e v = e v" for e
    by (rule fold_assign_out) (use Suc.prems in auto)
  show ?case
    unfolding hier_fold_Suc step by (rule Suc.IH) (use Suc.prems in auto)
qed

lemma hier_fold_in:
  assumes "g < n" "f < m"
  shows "fold (\<lambda>grp e. fold (\<lambda>nbf e'. e'(VXG grp nbf := Some (h grp nbf))) [0..<m] e) [0..<n] ev
           (VXG g f) = Some (h g f)"
  using assms(1)
proof (induction n)
  case 0
  then show ?case by simp
next
  case (Suc n)
  show ?case
  proof (cases "g = n")
    case True
    have "fold (\<lambda>nbf e'. e'(VXG n nbf := Some (h n nbf))) [0..<m] e (VXG n f) = Some (h n f)" for e
      by (rule fold_assign_in) (use assms(2) in \<open>auto simp: inj_def\<close>)
    then show ?thesis unfolding hier_fold_Suc True .
  next
    case False
    then have g: "g < n" using Suc.prems by simp
    have step: "fold (\<lambda>nbf e'. e'(VXG n nbf := Some (h n nbf))) [0..<m] e (VXG g f) = e (VXG g f)" for e
      by (rule fold_assign_out) (use False in auto)
    show ?thesis unfolding hier_fold_Suc step by (rule Suc.IH [OF g])
  qed
qed

lemma hier_evidence_in_range:
  assumes "well_formed_image x" "binary_image x" "grp < 16" "nbf < 25"
  shows "evidence_in_range (hier_model X T Z) (hier_assign x ev) (VXG grp nbf)"
  using xsub_binary [OF assms] assms(3,4)
    hier_fold_in [of grp 16 nbf 25 "\<lambda>g f. xsub x ! g ! f" ev]
  by (auto simp: evidence_in_range_def states_of_hier hier_assign_def)

lemma white_image_well_formed: "well_formed_image white_image" "binary_image white_image"
  by (simp_all add: well_formed_image_def binary_image_def white_image_def)

text \<open>
  C9. For a 20x20 image of pixels 0 and 1, every evidence value that the three \<open>predict\<close>
  functions assign is a state of the node it is assigned to: the two pixel sums of the
  example model are in [0, 200], below the 201 states of \<open>VX1\<close> and \<open>VX2\<close>, and the pixel
  values of the shallow and the hierarchical model are 0 or 1, below the 2 states of
  their \<open>VX\<close> nodes.
\<close>

theorem evidence_within_state_range:
  assumes "well_formed_image x" "binary_image x"
  shows "evidence_in_range (example_model X T) (snd (example_predict marginal x ev)) VX1 \<and>
         evidence_in_range (example_model X T) (snd (example_predict marginal x ev)) VX2 \<and>
         (\<forall>nbf < 400.
            evidence_in_range (shallow_model X T) (snd (shallow_predict marginal x ev)) (VX nbf)) \<and>
         (\<forall>grp < 16. \<forall>nbf < 25.
            evidence_in_range (hier_model X T Z) (snd (hier_predict marginal x ev)) (VXG grp nbf))"
proof (intro conjI allI impI)
  show "evidence_in_range (example_model X T) (snd (example_predict marginal x ev)) VX1"
    using example_evidence_in_range(1) [OF assms] by (simp add: example_predict_def Let_def)
  show "evidence_in_range (example_model X T) (snd (example_predict marginal x ev)) VX2"
    using example_evidence_in_range(2) [OF assms] by (simp add: example_predict_def Let_def)
  show "evidence_in_range (shallow_model X T) (snd (shallow_predict marginal x ev)) (VX nbf)"
    if "nbf < 400" for nbf
  proof -
    have "snd (shallow_predict marginal x ev) = snd (shallow_assign x ev)"
      by (simp add: shallow_predict_def split: prod.splits option.splits)
    then show ?thesis using shallow_evidence_in_range [OF assms that] by simp
  qed
  show "evidence_in_range (hier_model X T Z) (snd (hier_predict marginal x ev)) (VXG grp nbf)"
    if "grp < 16" "nbf < 25" for grp nbf
    using hier_evidence_in_range [OF assms that] assms(1) by (simp add: hier_predict_def Let_def)
qed

theorem evidence_within_state_range_witness:
  "well_formed_image white_image \<and> binary_image white_image \<and>
   evidence_in_range (example_model [] []) (snd (example_predict (\<lambda>ev. []) white_image (\<lambda>v. None))) VX1 \<and>
   evidence_in_range (shallow_model [] []) (snd (shallow_predict (\<lambda>ev. []) white_image (\<lambda>v. None))) (VX 399) \<and>
   evidence_in_range (hier_model [] [] []) (snd (hier_predict (\<lambda>ev. []) white_image (\<lambda>v. None))) (VXG 15 24)"
  using evidence_within_state_range [OF white_image_well_formed, of "[]" "[]" "\<lambda>ev. []" "\<lambda>v. None" "[]"]
    white_image_well_formed
  by simp

lemma fold_assign_agree:
  assumes "inj k" and "\<And>v. (\<And>i. i < n \<Longrightarrow> v \<noteq> k i) \<Longrightarrow> ev v = ev' v"
  shows "fold (\<lambda>i e. e(k i := Some (g i))) [0..<n] ev = fold (\<lambda>i e. e(k i := Some (g i))) [0..<n] ev'"
proof
  fix v
  show "fold (\<lambda>i e. e(k i := Some (g i))) [0..<n] ev v = fold (\<lambda>i e. e(k i := Some (g i))) [0..<n] ev' v"
  proof (cases "\<exists>i < n. v = k i")
    case True
    then obtain i where "i < n" "v = k i" by blast
    then show ?thesis using fold_assign_in [OF assms(1), of i n g] by simp
  next
    case False
    then have out: "\<And>i. i < n \<Longrightarrow> v \<noteq> k i" by blast
    show ?thesis
      using fold_assign_out [of n v k g ev, OF out] fold_assign_out [of n v k g ev', OF out]
        assms(2) [OF out] by simp
  qed
qed

lemma hier_fold_agree:
  assumes "\<And>v. (\<And>g f. g < n \<Longrightarrow> f < m \<Longrightarrow> v \<noteq> VXG g f) \<Longrightarrow> ev v = ev' v"
  shows "fold (\<lambda>grp e. fold (\<lambda>nbf e'. e'(VXG grp nbf := Some (h grp nbf))) [0..<m] e) [0..<n] ev
       = fold (\<lambda>grp e. fold (\<lambda>nbf e'. e'(VXG grp nbf := Some (h grp nbf))) [0..<m] e) [0..<n] ev'"
proof
  fix v
  show "fold (\<lambda>grp e. fold (\<lambda>nbf e'. e'(VXG grp nbf := Some (h grp nbf))) [0..<m] e) [0..<n] ev v
       = fold (\<lambda>grp e. fold (\<lambda>nbf e'. e'(VXG grp nbf := Some (h grp nbf))) [0..<m] e) [0..<n] ev' v"
  proof (cases "\<exists>g < n. \<exists>f < m. v = VXG g f")
    case True
    then obtain g f where "g < n" "f < m" "v = VXG g f" by blast
    then show ?thesis using hier_fold_in [of g n f m h] by simp
  next
    case False
    then have out: "\<And>g f. g < n \<Longrightarrow> f < m \<Longrightarrow> v \<noteq> VXG g f" by blast
    show ?thesis
      using hier_fold_out [of n m v h ev, OF out] hier_fold_out [of n m v h ev', OF out]
        assms [OF out] by simp
  qed
qed

text \<open>The nodes whose evidence the three \<open>predict\<close> functions may assign.\<close>

lemma example_predict_keeps:
  "v \<noteq> VX1 \<Longrightarrow> v \<noteq> VX2 \<Longrightarrow> snd (example_predict marginal x ev) v = ev v"
  by (simp add: example_predict_def example_assign_def Let_def)

lemma shallow_predict_keeps:
  assumes "\<And>i. i < 400 \<Longrightarrow> v \<noteq> VX i"
  shows "snd (shallow_predict marginal x ev) v = ev v"
proof -
  have "fold (\<lambda>nbf e. e(VX nbf := Some (ravel x ! nbf))) [0..<n] ev v = ev v" if "n \<le> 400" for n
    by (rule fold_assign_out) (use assms that in auto)
  then have "snd (shallow_assign x ev) v = ev v"
    by (simp add: shallow_assign_def Let_def)
  moreover have "snd (shallow_predict marginal x ev) = snd (shallow_assign x ev)"
    by (simp add: shallow_predict_def split: prod.splits option.splits)
  ultimately show ?thesis by simp
qed

lemma hier_predict_keeps:
  "(\<And>g f. g < 16 \<Longrightarrow> f < 25 \<Longrightarrow> v \<noteq> VXG g f) \<Longrightarrow> snd (hier_predict marginal x ev) v = ev v"
  using hier_fold_out [of 16 25 v "\<lambda>g f. xsub x ! g ! f" ev]
  by (simp add: hier_predict_def hier_assign_def Let_def)

lemma after_calls_keeps:
  assumes "\<And>x e. snd (predict x e) v = e v"
  shows "after_calls predict xs ev v = ev v"
  unfolding after_calls_def using assms by (induction xs arbitrary: ev) simp_all

lemma example_predict_agree:
  assumes "\<And>v. v \<noteq> VX1 \<Longrightarrow> v \<noteq> VX2 \<Longrightarrow> ev v = ev' v"
  shows "fst (example_predict marginal x ev) = fst (example_predict marginal x ev')"
proof -
  have "example_assign x ev = example_assign x ev'"
    using assms by (auto simp: example_assign_def)
  then show ?thesis by (simp add: example_predict_def Let_def)
qed

lemma shallow_predict_agree:
  assumes "\<And>v. (\<And>i. i < 400 \<Longrightarrow> v \<noteq> VX i) \<Longrightarrow> ev v = ev' v"
  shows "fst (shallow_predict marginal x ev) = fst (shallow_predict marginal x ev')"
proof (cases "length (ravel x) < 400")
  case True
  then show ?thesis by (simp add: shallow_predict_def shallow_assign_def Let_def)
next
  case False
  then have m: "min 400 (length (ravel x)) = 400" by simp
  have "snd (shallow_assign x ev) = snd (shallow_assign x ev')"
    unfolding shallow_assign_def Let_def snd_conv nbfeats_def m
    by (rule fold_assign_agree) (use assms in \<open>auto simp: inj_def\<close>)
  then show ?thesis
    using False by (simp add: shallow_predict_def shallow_assign_def Let_def)
qed

lemma hier_predict_agree:
  assumes "\<And>v. (\<And>g f. g < 16 \<Longrightarrow> f < 25 \<Longrightarrow> v \<noteq> VXG g f) \<Longrightarrow> ev v = ev' v"
  shows "fst (hier_predict marginal x ev) = fst (hier_predict marginal x ev')"
proof -
  have "hier_assign x ev = hier_assign x ev'"
    unfolding hier_assign_def nbgroups_def nbgfeats_def
    by (rule hier_fold_agree) (use assms in auto)
  then show ?thesis by (simp add: hier_predict_def Let_def)
qed

text \<open>
  C6. For each of the three models and every image \<open>x\<close>, \<open>predict(x)\<close> returns the same
  result whatever calls of \<open>predict\<close> came before on the same model: none (first call),
  the same image (repeated call), or any other images.
\<close>

theorem predict_insensitive_to_earlier_calls:
  "fst (example_predict marginal x (after_calls (example_predict marginal) xs ev))
     = fst (example_predict marginal x (after_calls (example_predict marginal) ys ev)) \<and>
   fst (shallow_predict marginal x (after_calls (shallow_predict marginal) xs ev))
     = fst (shallow_predict marginal x (after_calls (shallow_predict marginal) ys ev)) \<and>
   fst (hier_predict marginal x (after_calls (hier_predict marginal) xs ev))
     = fst (hier_predict marginal x (after_calls (hier_predict marginal) ys ev))"
proof (intro conjI)
  show "fst (example_predict marginal x (after_calls (example_predict marginal) xs ev))
     = fst (example_predict marginal x (after_calls (example_predict marginal) ys ev))"
  proof (rule example_predict_agree)
    fix v assume v: "v \<noteq> VX1" "v \<noteq> VX2"
    have "after_calls (example_predict marginal) zs ev v = ev v" for zs
      by (rule after_calls_keeps) (rule example_predict_keeps [OF v])
    then show "after_calls (example_predict marginal) xs ev v
             = after_calls (example_predict marginal) ys ev v" by simp
  qed
  show "fst (shallow_predict marginal x (after_calls (shallow_predict marginal) xs ev))
     = fst (shallow_predict marginal x (after_calls (shallow_predict marginal) ys ev))"
  proof (rule shallow_predict_agree)
    fix v assume v: "\<And>i. i < 400 \<Longrightarrow> v \<noteq> VX i"
    have "after_calls (shallow_predict marginal) zs ev v = ev v" for zs
      by (rule after_calls_keeps) (rule shallow_predict_keeps [OF v])
    then show "after_calls (shallow_predict marginal) xs ev v
             = after_calls (shallow_predict marginal) ys ev v" by simp
  qed
  show "fst (hier_predict marginal x (after_calls (hier_predict marginal) xs ev))
     = fst (hier_predict marginal x (after_calls (hier_predict marginal) ys ev))"
  proof (rule hier_predict_agree)
    fix v assume v: "\<And>g f. g < 16 \<Longrightarrow> f < 25 \<Longrightarrow> v \<noteq> VXG g f"
    have "after_calls (hier_predict marginal) zs ev v = ev v" for zs
      by (rule after_calls_keeps) (rule hier_predict_keeps [OF v])
    then show "after_calls (hier_predict marginal) xs ev v
             = after_calls (hier_predict marginal) ys ev v" by simp
  qed
qed

theorem predict_insensitive_to_earlier_calls_witness:
  "fst (example_predict (\<lambda>ev. [0, 1]) white_image
          (after_calls (example_predict (\<lambda>ev. [0, 1])) [white_image, []] (\<lambda>v. None)))
     = fst (example_predict (\<lambda>ev. [0, 1]) white_image
          (after_calls (example_predict (\<lambda>ev. [0, 1])) [] (\<lambda>v. None))) \<and>
   fst (shallow_predict (\<lambda>ev. [0, 1]) white_image
          (after_calls (shallow_predict (\<lambda>ev. [0, 1])) [white_image, []] (\<lambda>v. None)))
     = fst (shallow_predict (\<lambda>ev. [0, 1]) white_image
          (after_calls (shallow_predict (\<lambda>ev. [0, 1])) [] (\<lambda>v. None))) \<and>
   fst (hier_predict (\<lambda>ev. [0, 1]) white_image
          (after_calls (hier_predict (\<lambda>ev. [0, 1])) [white_image, []] (\<lambda>v. None)))
     = fst (hier_predict (\<lambda>ev. [0, 1]) white_image
          (after_calls (hier_predict (\<lambda>ev. [0, 1])) [] (\<lambda>v. None))) \<and>
   fst (hier_predict (\<lambda>ev. [0, 1]) white_image (\<lambda>v. None)) = Inr 1"
proof -
  have "fst (hier_predict (\<lambda>ev. [0, 1]) white_image (\<lambda>v. None)) = Inr 1"
    using white_image_well_formed(1) by (simp add: hier_predict_def Let_def argmax_def)
  then show ?thesis
    using predict_insensitive_to_earlier_calls
      [of "\<lambda>ev. [0, 1]" white_image "[white_image, []]" "\<lambda>v. None" "[]"]
    by simp
qed

text \<open>Both training sets are well formed.\<close>

lemma white3_well_formed: "well_formed_data white3_X white3_T white3_Z"
  using white_image_well_formed(1)
  by (simp add: well_formed_data_def white3_X_def white3_T_def white3_Z_def)

lemma white2_well_formed: "well_formed_data white2_X white2_T white2_Z"
  using white_image_well_formed(1)
  by (simp add: well_formed_data_def white2_X_def white2_T_def white2_Z_def)

text \<open>
  C3, where the code departs from it. On the training set \<open>white3\<close> the only patch of
  group 0 with subclass 0 is that of example 2, and its pixel 0 is white: the fraction of
  white is 1. The cell divides the count of white, 1, by the sum of the example indices,
  2, instead of their number, and stores 1/2 in \<open>PXT[0,0,0,1]\<close>.
\<close>

theorem hier_PXT_divides_by_index_sum:
  "examples_with white3_Z 0 0 = [2] \<and>
   hier_PXT1 white3_X white3_Z 0 0 0 = Some (1 / 2) \<and>
   white_fraction white3_X white3_Z 0 0 0 = 1"
proof -
  have "examples_with white3_Z 0 0 = [2]" by code_simp
  moreover have "hier_PXT1 white3_X white3_Z 0 0 0 = Some (1 / 2)" by code_simp
  moreover have "white_fraction white3_X white3_Z 0 0 0 = 1" by code_simp
  ultimately show ?thesis by simp
qed

text \<open>
  C4, where the code departs from it. On the training set \<open>white2\<close> both examples have
  subclass 0 in group 0; the sum of their indices is 1, so \<open>PXT[0,0,0,1]\<close> is 2/1 and
  \<open>PXT[0,0,0,0]\<close> is -1. The array handed to \<open>np.log\<close> for \<open>FXT[0][0]\<close> has the entry
  \<open>-1 + 1e-20\<close>, which is negative, and the logarithm is \<open>nan\<close>.
\<close>

theorem hier_log_of_negative_entry:
  "examples_with white2_Z 0 0 = [0, 1] \<and>
   hier_PXT1 white2_X white2_Z 0 0 0 = Some 2 \<and>
   map (map plus_eps) (hier_PXT white2_X white2_Z 0 0) ! 0 ! 0 = Some (- 1 + 1 / 10 ^ 20) \<and>
   np_log (Some (- 1 + 1 / 10 ^ 20)) = None \<and>
   map_option logtable (map_of (factor_nodes (hier_model white2_X white2_T white2_Z)) (FXTG 0 0))
     = Some (log_table (matrix (map (map plus_eps) (hier_PXT white2_X white2_Z 0 0))))"
proof -
  have "examples_with white2_Z 0 0 = [0, 1]" by code_simp
  moreover have "hier_PXT1 white2_X white2_Z 0 0 0 = Some 2" by code_simp
  moreover have "map (map plus_eps) (hier_PXT white2_X white2_Z 0 0) ! 0 ! 0
      = Some (- 1 + 1 / 10 ^ 20)" by code_simp
  moreover have "np_log (Some (- 1 + 1 / 10 ^ 20)) = None" by (simp add: np_log_def)
  moreover have "map_option logtable
      (map_of (factor_nodes (hier_model white2_X white2_T white2_Z)) (FXTG 0 0))
     = Some (log_table (matrix (map (map plus_eps) (hier_PXT white2_X white2_Z 0 0))))"
    using factors_hier(3) [of 0 0 white2_X white2_T white2_Z] by simp
  ultimately show ?thesis by simp
qed

end
